theory Spec2Isabelle
  imports Main "HOL-Library.Multiset"
begin

section \<open>Values shared by the modules\<close>

text \<open>
  A \<^verbatim>\<open>datetime\<close> value: a point on the wall clock, counted in microseconds (the resolution
  of \<^verbatim>\<open>datetime.now()\<close>). The wall clock is an input of the program.
\<close>

type_synonym datetime = int

text \<open>
  Exceptions are values. \<open>TypeError\<close> is what \<^verbatim>\<open>Cursor.limit\<close> raises for a limit that is
  not an integer, \<open>ServerSelectionTimeoutError\<close> what the store client raises when no server
  answers, \<open>Exception\<close> stands for whatever the model client raises (with its text),
  \<open>HTTPException\<close> is FastAPI's, with its status code and detail. The detail is either the
  literal text the code writes or \<^verbatim>\<open>str(e)\<close> of a caught exception \<open>e\<close>, kept symbolic.
\<close>

datatype exception =
    TypeError string
  | ServerSelectionTimeoutError
  | Exception string
  | HTTPException nat detail
and detail =
    Literal string
  | Str exception

section \<open>database.py\<close>

text \<open>
  The document \<^verbatim>\<open>chat_data\<close> that \<^verbatim>\<open>save_chat\<close> builds (lines 30-35). The collection
  \<^verbatim>\<open>chat_history\<close> is the list of its documents in insertion order (the natural order of
  the collection); it holds only documents written by \<^verbatim>\<open>save_chat\<close>.
\<close>

record chat_data =
  user_id :: string
  user_message :: string
  bot_response :: string
  timestamp :: datetime

type_synonym collection = "chat_data list"

text \<open>
  Lines 15-22: the module-level \<^verbatim>\<open>chats_collection\<close> is the collection handle, or
  \<^verbatim>\<open>None\<close> when building the client raised. \<^verbatim>\<open>MongoClient(uri)\<close> and the two subscripts
  do not contact the server, so a handle is built whether or not a server answers: the
  argument \<open>client\<close> is \<open>Inl\<close> only for what the constructor itself rejects (a malformed URI).
  Whether the server answers is an input of each later operation, the flag \<open>up\<close> below.
\<close>

definition connect :: "exception + collection \<Rightarrow> collection option" where
  "connect client =
     (case client of
        Inr chats_collection \<Rightarrow> Some chats_collection
      | Inl e \<Rightarrow> None)"

text \<open>
  \<^verbatim>\<open>test_connection\<close> (lines 56-62): the ping, with every exception caught. When building
  the client raised, \<^verbatim>\<open>client\<close> is unbound and the \<^verbatim>\<open>NameError\<close> is caught too.
\<close>

definition test_connection :: "bool \<Rightarrow> collection option \<Rightarrow> bool" where
  "test_connection up cc = (case cc of None \<Rightarrow> False | Some c \<Rightarrow> up)"

text \<open>
  A stored datetime keeps milliseconds only: the microseconds of a reading below the
  millisecond are dropped when the document is encoded.
\<close>

definition stored_datetime :: "datetime \<Rightarrow> datetime" where
  "stored_datetime t = 1000 * (t div 1000)"

text \<open>
  \<^verbatim>\<open>Collection.insert_one\<close>: raises when no server answers; otherwise the encoded document
  is appended.
\<close>

definition insert_one :: "bool \<Rightarrow> collection \<Rightarrow> chat_data \<Rightarrow> exception + collection" where
  "insert_one up c d =
     (if up then Inr (c @ [d\<lparr>timestamp := stored_datetime (timestamp d)\<rparr>])
      else Inl ServerSelectionTimeoutError)"

text \<open>
  \<^verbatim>\<open>save_chat\<close> (lines 24-38). \<open>now\<close> is the reading of \<^verbatim>\<open>datetime.now()\<close> at line 34.
  The result is the returned flag, or the exception that \<^verbatim>\<open>insert_one\<close> raised at line 36
  (nothing catches it), and the collection handle after the call. The two \<^verbatim>\<open>print\<close> calls
  are left out.
\<close>

definition save_chat ::
  "string \<Rightarrow> string \<Rightarrow> string \<Rightarrow> datetime \<Rightarrow> bool \<Rightarrow> collection option
     \<Rightarrow> (exception + bool) \<times> collection option"
where
  "save_chat uid umsg bresp now up chats_collection =
     (case chats_collection of
        None \<Rightarrow> (Inr False, None)
      | Some c \<Rightarrow>
          (case insert_one up c
                  \<lparr>user_id = uid, user_message = umsg, bot_response = bresp, timestamp = now\<rparr> of
             Inl e \<Rightarrow> (Inl e, Some c)
           | Inr c' \<Rightarrow> (Inr True, Some c')))"

text \<open>
  The cursor of lines 45-47, one definition per call of the chain.
  \<^verbatim>\<open>find({"user_id": user_id})\<close> keeps the documents whose \<^verbatim>\<open>user_id\<close> equals the argument.
\<close>

definition find_user_id :: "collection \<Rightarrow> string \<Rightarrow> chat_data list" where
  "find_user_id c uid = filter (\<lambda>d. user_id d = uid) c"

text \<open>
  \<^verbatim>\<open>.sort("timestamp", -1)\<close>: descending by timestamp. Documents with equal timestamps
  come in natural order, the order of insertion (a stable sort): the query names no
  second sort key.
\<close>

definition sort_timestamp_desc :: "chat_data list \<Rightarrow> chat_data list" where
  "sort_timestamp_desc xs = sort_key (\<lambda>d. - timestamp d) xs"

text \<open>
  \<^verbatim>\<open>.limit(limit)\<close>: \<^verbatim>\<open>None\<close> is not an integer and raises \<^verbatim>\<open>TypeError\<close>; \<open>0\<close> means no
  limit; otherwise at most \<open>\<bar>limit\<bar>\<close> documents are returned.
\<close>

definition limit_cursor :: "int option \<Rightarrow> chat_data list \<Rightarrow> exception + chat_data list" where
  "limit_cursor limit xs =
     (case limit of
        None \<Rightarrow> Inl (TypeError ''limit must be an integer'')
      | Some n \<Rightarrow> Inr (if n = 0 then xs else take (nat \<bar>n\<bar>) xs))"

text \<open>
  The loop of lines 49-52: \<open>messages\<close> is the accumulator, two lines are appended per
  document.
\<close>

fun append_messages :: "string list \<Rightarrow> chat_data list \<Rightarrow> string list" where
  "append_messages messages [] = messages"
| "append_messages messages (chat # rest) =
     append_messages
       ((messages @ [''User: '' @ user_message chat]) @ [''Assistant: '' @ bot_response chat])
       rest"

text \<open>\<^verbatim>\<open>sep.join(xs)\<close> of Python.\<close>

fun join :: "string \<Rightarrow> string list \<Rightarrow> string" where
  "join sep [] = []"
| "join sep [x] = x"
| "join sep (x # y # ys) = x @ sep @ join sep (y # ys)"

text \<open>
  \<^verbatim>\<open>list(history)\<close> at line 50: the query is sent when the cursor is read, and raises when
  no server answers.
\<close>

definition list_cursor :: "bool \<Rightarrow> chat_data list \<Rightarrow> exception + chat_data list" where
  "list_cursor up xs = (if up then Inr xs else Inl ServerSelectionTimeoutError)"

text \<open>
  \<^verbatim>\<open>get_chat_history\<close> (lines 40-54). The second component of the result is the collection
  handle after the call. An exception of \<^verbatim>\<open>limit\<close> leaves the function at line 47, one of
  the server at line 50; nothing catches either.
\<close>

definition get_chat_history ::
  "string \<Rightarrow> int option \<Rightarrow> bool \<Rightarrow> collection option
     \<Rightarrow> (exception + string) \<times> collection option"
where
  "get_chat_history uid limit up chats_collection =
     (case chats_collection of
        None \<Rightarrow> (Inr [], chats_collection)
      | Some c \<Rightarrow>
          (case limit_cursor limit (sort_timestamp_desc (find_user_id c uid)) of
             Inl e \<Rightarrow> (Inl e, chats_collection)
           | Inr history \<Rightarrow>
               (case list_cursor up history of
                  Inl e \<Rightarrow> (Inl e, chats_collection)
                | Inr chats \<Rightarrow>
                    (Inr (join ''\<newline>'' (append_messages [] (rev chats))),
                     chats_collection))))"

section \<open>main.py and chatbot_with_memory.py\<close>

record ChatRequest =
  req_user_id :: string
  req_message :: string

record ChatResponse =
  resp_user_id :: string
  resp_user_message :: string
  resp_bot_response :: string
  resp_status :: string

record HistoryRequest =
  hreq_user_id :: string
  hreq_limit :: "int option"

record HistoryResponse =
  hresp_user_id :: string
  hresp_history :: string
  hresp_status :: string

datatype message = SystemMessage string | HumanMessage string

text \<open>
  What a turn acts on: the collection handle of \<^verbatim>\<open>database.py\<close> and the external model.
  The model's answer to one call is the parameter \<open>llm\<close> of the functions below;
  \<open>invocations\<close> records every call of \<^verbatim>\<open>llm.invoke\<close> with its messages, in order.
\<close>

record world =
  chats_collection :: "collection option"
  invocations :: "message list list"

definition system_prompt :: string where
  "system_prompt =
     ''You are a helpful study assistant. Help students with their academic questions. Give clear, educational responses.''"

text \<open>The prompt of lines 125-128 of main.py and lines 54-57 of chatbot_with_memory.py.\<close>

definition prompt_context :: "string \<Rightarrow> string \<Rightarrow> string" where
  "prompt_context chat_history msg =
     (if chat_history \<noteq> []
      then ''Previous conversation:\<newline>'' @ chat_history @
           ''\<newline>\<newline>Current question: '' @ msg
      else msg)"

definition messages_of :: "string \<Rightarrow> message list" where
  "messages_of ctx = [SystemMessage system_prompt, HumanMessage ctx]"

text \<open>
  \<^verbatim>\<open>chat\<close> of main.py (lines 98-149). \<open>key\<close> is \<^verbatim>\<open>os.getenv("GOOGLE_API_KEY")\<close>, \<open>llm\<close> the
  outcome of \<^verbatim>\<open>llm.invoke\<close>, \<open>now\<close> the clock reading inside \<^verbatim>\<open>save_chat\<close>, \<open>up_read\<close> and
  \<open>up_write\<close> whether the server answers the query of line 122 and the insert of line 140.
  Every exception inside the \<^verbatim>\<open>try\<close>, the \<^verbatim>\<open>HTTPException\<close> of line 112 included, is caught
  at line 148 and raised again as a 500 whose detail is its \<^verbatim>\<open>str\<close>.
\<close>

definition chat ::
  "string option \<Rightarrow> (message list \<Rightarrow> exception + string) \<Rightarrow> datetime \<Rightarrow> bool \<Rightarrow> bool
     \<Rightarrow> ChatRequest \<Rightarrow> world \<Rightarrow> (exception + ChatResponse) \<times> world"
where
  "chat key llm now up_read up_write request w =
     (if key = None \<or> key = Some []
      then (Inl (HTTPException 500
                  (Str (HTTPException 500 (Literal ''Google API key not found'')))), w)
      else
        (case get_chat_history (req_user_id request) (Some 5) up_read (chats_collection w) of
           (Inl e, cc) \<Rightarrow> (Inl (HTTPException 500 (Str e)), w\<lparr>chats_collection := cc\<rparr>)
         | (Inr chat_history, cc) \<Rightarrow>
             (let msgs = messages_of (prompt_context chat_history (req_message request));
                  w1 = w\<lparr>chats_collection := cc, invocations := invocations w @ [msgs]\<rparr>
              in case llm msgs of
                   Inl e \<Rightarrow> (Inl (HTTPException 500 (Str e)), w1)
                 | Inr bresp \<Rightarrow>
                     (case save_chat (req_user_id request) (req_message request) bresp now
                             up_write (chats_collection w1) of
                        (Inl e, cc2) \<Rightarrow>
                          (Inl (HTTPException 500 (Str e)), w1\<lparr>chats_collection := cc2\<rparr>)
                      | (Inr saved, cc2) \<Rightarrow>
                          (Inr \<lparr>resp_user_id = req_user_id request,
                                resp_user_message = req_message request,
                                resp_bot_response = bresp,
                                resp_status = ''success''\<rparr>,
                           w1\<lparr>chats_collection := cc2\<rparr>)))))"

text \<open>\<^verbatim>\<open>get_history\<close> of main.py (lines 154-172).\<close>

definition get_history ::
  "bool \<Rightarrow> HistoryRequest \<Rightarrow> collection option
     \<Rightarrow> (exception + HistoryResponse) \<times> collection option"
where
  "get_history up request cc =
     (case get_chat_history (hreq_user_id request) (hreq_limit request) up cc of
        (Inl e, cc1) \<Rightarrow> (Inl (HTTPException 500 (Str e)), cc1)
      | (Inr history, cc1) \<Rightarrow>
          (Inr \<lparr>hresp_user_id = hreq_user_id request,
                hresp_history = (if history \<noteq> [] then history else ''No chat history found''),
                hresp_status = ''success''\<rparr>,
           cc1))"

text \<open>
  One iteration of the loop of \<^verbatim>\<open>chat_with_memory\<close> for an input that is not a quit word
  (lines 49-78 of chatbot_with_memory.py). What the iteration prints is a list of events:
  \<open>Thinking\<close> for line 66, \<open>Bot\<close> for line 74 and \<open>Error\<close> for lines 77-78. An exception
  of \<^verbatim>\<open>save_chat\<close> at line 71 reaches the handler before the answer is printed.
\<close>

datatype printed = Thinking | Bot string | Error exception

definition chat_with_memory_turn ::
  "(message list \<Rightarrow> exception + string) \<Rightarrow> datetime \<Rightarrow> bool \<Rightarrow> bool \<Rightarrow> string \<Rightarrow> string
     \<Rightarrow> world \<Rightarrow> printed list \<times> world"
where
  "chat_with_memory_turn llm now up_read up_write uid user_input w =
     (case get_chat_history uid (Some 5) up_read (chats_collection w) of
        (Inl e, cc) \<Rightarrow> ([Error e], w\<lparr>chats_collection := cc\<rparr>)
      | (Inr chat_history, cc) \<Rightarrow>
          (let msgs = messages_of (prompt_context chat_history user_input);
               w1 = w\<lparr>chats_collection := cc, invocations := invocations w @ [msgs]\<rparr>
           in case llm msgs of
                Inl e \<Rightarrow> ([Thinking, Error e], w1)
              | Inr bresp \<Rightarrow>
                  (case save_chat uid user_input bresp now up_write (chats_collection w1) of
                     (Inl e, cc2) \<Rightarrow> ([Thinking, Error e], w1\<lparr>chats_collection := cc2\<rparr>)
                   | (Inr saved, cc2) \<Rightarrow>
                       ([Thinking, Bot bresp], w1\<lparr>chats_collection := cc2\<rparr>))))"

section \<open>Notions of the specification\<close>


text \<open>The same, telling a missing collection from an empty log.\<close>

definition user_log :: "string \<Rightarrow> collection option \<Rightarrow> chat_data list option" where
  "user_log uid cc = map_option (\<lambda>c. find_user_id c uid) cc"

text \<open>The two lines of a turn in the transcript.\<close>

definition turn_lines :: "chat_data \<Rightarrow> string list" where
  "turn_lines d = [''User: '' @ user_message d, ''Assistant: '' @ bot_response d]"

definition transcript :: "chat_data list \<Rightarrow> string" where
  "transcript turns = join ''\<newline>'' (concat (map turn_lines turns))"

section \<open>Auxiliary facts\<close>

lemma append_messages_concat:
  "append_messages acc xs = acc @ concat (map turn_lines xs)"
  by (induction xs arbitrary: acc) (simp_all add: turn_lines_def)

lemma get_chat_history_transcript:
  "fst (get_chat_history u (Some n) True (Some c)) =
     Inr (transcript (rev (if n = 0 then sort_timestamp_desc (find_user_id c u)
                           else take (nat \<bar>n\<bar>) (sort_timestamp_desc (find_user_id c u)))))"
  by (simp add: get_chat_history_def limit_cursor_def list_cursor_def transcript_def
      append_messages_concat)

lemma get_chat_history_state: "snd (get_chat_history u l up cc) = cc"
  by (simp add: get_chat_history_def split: option.splits sum.splits)

lemma sorted_rev_take_desc:
  "sorted (map timestamp (rev (take k (sort_timestamp_desc xs))))"
proof -
  have "sorted (map (\<lambda>d. - timestamp d) (sort_timestamp_desc xs))"
    by (simp add: sort_timestamp_desc_def)
  then have "sorted (map (\<lambda>d. - timestamp d) (take k (sort_timestamp_desc xs)))"
    by (simp add: take_map [symmetric])
  then show ?thesis
    by (simp add: rev_map [symmetric] sorted_wrt_rev sorted_wrt_map)
qed

lemma mset_sort_timestamp_desc: "mset (sort_timestamp_desc xs) = mset xs"
  by (simp add: sort_timestamp_desc_def)

lemma take_drop_desc:
  assumes "d \<in> set (drop k (sort_timestamp_desc xs))"
    and "e \<in> set (take k (sort_timestamp_desc xs))"
  shows "timestamp d \<le> timestamp e"
proof -
  let ?ys = "sort_timestamp_desc xs"
  have "sorted (map (\<lambda>d. - timestamp d) (take k ?ys @ drop k ?ys))"
    by (simp add: sort_timestamp_desc_def)
  then have "\<forall>a\<in>set (take k ?ys). \<forall>b\<in>set (drop k ?ys). - timestamp a \<le> - timestamp b"
    unfolding map_append sorted_append by simp
  with assms show ?thesis by fastforce
qed

lemma rest_is_drop:
  "mset xs - mset (rev (take k (sort_timestamp_desc xs))) = mset (drop k (sort_timestamp_desc xs))"
proof -
  have "mset xs = mset (take k (sort_timestamp_desc xs)) + mset (drop k (sort_timestamp_desc xs))"
    by (metis append_take_drop_id mset_append mset_sort_timestamp_desc)
  then show ?thesis by simp
qed

lemma save_chat_handle:
  "snd (save_chat v m r now up (Some c)) =
     Some (if up
           then c @ [\<lparr>user_id = v, user_message = m, bot_response = r,
                      timestamp = stored_datetime now\<rparr>]
           else c)"
  by (simp add: save_chat_def insert_one_def)

lemma get_chat_history_user_log:
  "user_log u s1 = user_log u s2 \<Longrightarrow>
   fst (get_chat_history u l up s1) = fst (get_chat_history u l up s2)"
  by (cases s1; cases s2)
     (simp_all add: user_log_def get_chat_history_def split: sum.splits)

lemma user_log_save_chat_other:
  "v \<noteq> u \<Longrightarrow> user_log u (snd (save_chat v m r now up s)) = user_log u s"
proof (cases s)
  case None
  then show ?thesis by (simp add: user_log_def save_chat_def)
next
  case (Some c)
  assume "v \<noteq> u"
  with Some show ?thesis
    by (simp add: user_log_def save_chat_handle find_user_id_def)
qed

section \<open>What holds of the order of turns\<close>

text \<open>
  Two records of a user without turns whose clock readings fall into different
  milliseconds, the second one the later: the transcript lists them in recording order.
\<close>

lemma two_records_later_millisecond:
  assumes "find_user_id c u = []" and "t1 div 1000 < t2 div 1000"
  shows "fst (get_chat_history u (Some 5) True
            (snd (save_chat u q2 a2 t2 True (snd (save_chat u q1 a1 t1 True (Some c))))))
         = Inr (''User: '' @ q1 @ ''\<newline>Assistant: '' @ a1 @
                ''\<newline>User: '' @ q2 @ ''\<newline>Assistant: '' @ a2)"
  using assms
  by (simp add: get_chat_history_def save_chat_handle find_user_id_def stored_datetime_def
      sort_timestamp_desc_def limit_cursor_def list_cursor_def)

text \<open>
  With a positive limit \<open>n\<close> and a server that answers, the result is the transcript of a
  list of the user's stored turns that is ordered by stored timestamp ascending, has
  \<open>min n k\<close> elements for \<open>k\<close> stored turns, and leaves out no turn with a later stored
  timestamp than one it contains.
\<close>

lemma selection_by_timestamp:
  assumes "0 < n"
  shows "\<exists>turns.
           fst (get_chat_history u (Some n) True (Some c)) = Inr (transcript turns)
           \<and> sorted (map timestamp turns)
           \<and> length turns = min (nat n) (length (find_user_id c u))
           \<and> mset turns \<subseteq># mset (find_user_id c u)
           \<and> (\<forall>d \<in># mset (find_user_id c u) - mset turns.
                \<forall>e \<in> set turns. timestamp d \<le> timestamp e)"
proof -
  let ?xs = "find_user_id c u"
  let ?turns = "rev (take (nat n) (sort_timestamp_desc ?xs))"
  have 1: "fst (get_chat_history u (Some n) True (Some c)) = Inr (transcript ?turns)"
    using assms by (simp add: get_chat_history_transcript)
  have 2: "sorted (map timestamp ?turns)"
    by (rule sorted_rev_take_desc)
  have "length (sort_timestamp_desc ?xs) = length ?xs"
    by (simp add: sort_timestamp_desc_def)
  then have 3: "length ?turns = min (nat n) (length ?xs)"
    by simp
  have "mset (take (nat n) (sort_timestamp_desc ?xs)) \<subseteq># mset (sort_timestamp_desc ?xs)"
    by (metis append_take_drop_id mset_append mset_subset_eq_add_left)
  then have 4: "mset ?turns \<subseteq># mset ?xs"
    by (simp add: mset_sort_timestamp_desc)
  have 5: "\<forall>d \<in># mset ?xs - mset ?turns. \<forall>e \<in> set ?turns. timestamp d \<le> timestamp e"
    unfolding rest_is_drop using take_drop_desc by simp
  from 1 2 3 4 5 show ?thesis by blast
qed

text \<open>Without a handle both operations return a value, whatever the server does.\<close>

lemma no_handle_degrades:
  "save_chat u m r now up (connect (Inl e)) = (Inr False, None)
   \<and> get_chat_history u l up (connect (Inl e)) = (Inr [], None)"
  by (simp add: save_chat_def get_chat_history_def connect_def)

section \<open>Recording and reading back\<close>

text \<open>
  C1. The statement: for a user \<open>u\<close> without stored turns, after \<^verbatim>\<open>save_chat(u, "Q1", "A1")\<close>
  and then \<^verbatim>\<open>save_chat(u, "Q2", "A2")\<close>, \<^verbatim>\<open>get_chat_history(u, 5)\<close> is the four lines
  \<open>User: Q1\<close>, \<open>Assistant: A1\<close>, \<open>User: Q2\<close>, \<open>Assistant: A2\<close>. The code does not deliver it
  when both clock readings fall into one millisecond: here the first call reads
  microsecond 100 and the second microsecond 200, both calls succeed, both documents are
  stored with the same timestamp, and the transcript lists the second turn first.
\<close>

theorem two_records_same_millisecond:
  "fst (save_chat ''u'' ''Q1'' ''A1'' 100 True (Some [])) = Inr True
   \<and> fst (save_chat ''u'' ''Q2'' ''A2'' 200 True
            (snd (save_chat ''u'' ''Q1'' ''A1'' 100 True (Some [])))) = Inr True
   \<and> fst (get_chat_history ''u'' (Some 5) True
            (snd (save_chat ''u'' ''Q2'' ''A2'' 200 True
               (snd (save_chat ''u'' ''Q1'' ''A1'' 100 True (Some []))))))
       = Inr ''User: Q2\<newline>Assistant: A2\<newline>User: Q1\<newline>Assistant: A1''"
  by (simp add: get_chat_history_def save_chat_def insert_one_def find_user_id_def
      stored_datetime_def sort_timestamp_desc_def limit_cursor_def list_cursor_def)

text \<open>
  C5. The statement: \<^verbatim>\<open>get_chat_history(u, limit)\<close> selects the \<open>limit\<close> most recent turns of
  \<open>u\<close> and lists them oldest first; in particular, after recording \<open>(Q1, A1)\<close> and then
  \<open>(Q2, A2)\<close>, \<^verbatim>\<open>get_chat_history(u, 1)\<close> is \<open>User: Q2\<close>, \<open>Assistant: A2\<close>. The code does not
  deliver the particular case when both clock readings fall into one millisecond: with
  the readings 100 and 200 microseconds the limit of one selects the first recorded turn.
\<close>

theorem most_recent_same_millisecond:
  "fst (get_chat_history ''u'' (Some 1) True
          (snd (save_chat ''u'' ''Q2'' ''A2'' 200 True
             (snd (save_chat ''u'' ''Q1'' ''A1'' 100 True (Some []))))))
     = Inr ''User: Q1\<newline>Assistant: A1''"
  by (simp add: get_chat_history_def save_chat_def insert_one_def find_user_id_def
      stored_datetime_def sort_timestamp_desc_def limit_cursor_def list_cursor_def)



section \<open>A server that does not answer\<close>

text \<open>
  C2. The statement: when the backing store is unavailable, \<^verbatim>\<open>save_chat\<close> returns
  \<^verbatim>\<open>False\<close> and \<^verbatim>\<open>get_chat_history\<close> returns the empty string, and neither raises. The
  code delivers it only when there is no handle. With a handle built and no server
  answering, which \<^verbatim>\<open>test_connection\<close> reports as disconnected, \<^verbatim>\<open>save_chat\<close> and
  \<^verbatim>\<open>get_chat_history\<close> both raise, and the \<^verbatim>\<open>/chat\<close> endpoint answers 500 although the model
  has answered.
\<close>

theorem unreachable_server_raises:
  "connect (Inr []) = Some []
   \<and> test_connection False (Some []) = False
   \<and> save_chat ''u'' ''m'' ''r'' 0 False (Some []) = (Inl ServerSelectionTimeoutError, Some [])
   \<and> get_chat_history ''u'' (Some 5) False (Some []) = (Inl ServerSelectionTimeoutError, Some [])
   \<and> fst (chat (Some ''k'') (\<lambda>msgs. Inr ''r'') 0 True False
           \<lparr>req_user_id = ''u'', req_message = ''m''\<rparr>
           \<lparr>chats_collection = Some [], invocations = []\<rparr>)
       = Inl (HTTPException 500 (Str ServerSelectionTimeoutError))"
  by (simp add: connect_def test_connection_def save_chat_def insert_one_def
      get_chat_history_def find_user_id_def sort_timestamp_desc_def limit_cursor_def
      list_cursor_def chat_def)

section \<open>Separation of users and frame\<close>

text \<open>
  C8. The result of \<^verbatim>\<open>get_chat_history(u, limit)\<close> depends only on the turns stored for
  \<open>u\<close>: two collections with the same log for \<open>u\<close> give the same result whatever they
  hold for other users, and \<^verbatim>\<open>save_chat(v, m, r)\<close> for \<open>v \<noteq> u\<close> does not change it.
\<close>

theorem history_noninterference:
  "(user_log u s1 = user_log u s2 \<longrightarrow>
      fst (get_chat_history u l up s1) = fst (get_chat_history u l up s2))
   \<and> (v \<noteq> u \<longrightarrow>
      fst (get_chat_history u l up (snd (save_chat v m r now up' s)))
        = fst (get_chat_history u l up s))"
  using get_chat_history_user_log user_log_save_chat_other by blast

theorem history_noninterference_witness:
  "user_log ''u'' (Some [\<lparr>user_id = ''u'', user_message = ''a'', bot_response = ''b'', timestamp = 1000\<rparr>,
                         \<lparr>user_id = ''v'', user_message = ''x'', bot_response = ''y'', timestamp = 2000\<rparr>])
     = user_log ''u'' (Some [\<lparr>user_id = ''w'', user_message = ''p'', bot_response = ''q'', timestamp = 0\<rparr>,
                             \<lparr>user_id = ''u'', user_message = ''a'', bot_response = ''b'', timestamp = 1000\<rparr>])
   \<and> fst (get_chat_history ''u'' (Some 5) True
          (Some [\<lparr>user_id = ''u'', user_message = ''a'', bot_response = ''b'', timestamp = 1000\<rparr>,
                 \<lparr>user_id = ''v'', user_message = ''x'', bot_response = ''y'', timestamp = 2000\<rparr>]))
     = fst (get_chat_history ''u'' (Some 5) True
          (Some [\<lparr>user_id = ''w'', user_message = ''p'', bot_response = ''q'', timestamp = 0\<rparr>,
                 \<lparr>user_id = ''u'', user_message = ''a'', bot_response = ''b'', timestamp = 1000\<rparr>]))
   \<and> ''v'' \<noteq> ''u''
   \<and> fst (get_chat_history ''u'' (Some 5) True
          (snd (save_chat ''v'' ''x'' ''y'' 2000 True
             (Some [\<lparr>user_id = ''u'', user_message = ''a'', bot_response = ''b'', timestamp = 1000\<rparr>]))))
     = fst (get_chat_history ''u'' (Some 5) True
          (Some [\<lparr>user_id = ''u'', user_message = ''a'', bot_response = ''b'', timestamp = 1000\<rparr>]))"
proof -
  let ?d = "\<lparr>user_id = ''u'', user_message = ''a'', bot_response = ''b'', timestamp = 1000\<rparr>"
  let ?x = "\<lparr>user_id = ''v'', user_message = ''x'', bot_response = ''y'', timestamp = 2000\<rparr>"
  let ?p = "\<lparr>user_id = ''w'', user_message = ''p'', bot_response = ''q'', timestamp = 0\<rparr>"
  have h1: "user_log ''u'' (Some [?d, ?x]) = user_log ''u'' (Some [?p, ?d])"
    by (simp add: user_log_def find_user_id_def)
  have h2: "''v'' \<noteq> ''u''" by simp
  from history_noninterference
    [of "''u''" "Some [?d, ?x]" "Some [?p, ?d]" "Some 5" True "''v''" "''x''" "''y''" 2000 True
        "Some [?d]"]
  show ?thesis using h1 h2 by blast
qed

text \<open>
  C9. \<^verbatim>\<open>get_chat_history\<close> is read-only: for every user, limit and collection, whether it
  returns or raises, the collection after the call is the collection before it.
\<close>

theorem get_chat_history_read_only:
  "snd (get_chat_history u l up cc) = cc"
  by (simp add: get_chat_history_def split: option.splits sum.splits)

section \<open>The chat turn\<close>

text \<open>
  C3. With an API key set, if the call of the external model raises \<open>e\<close>, the turn ends
  there: the \<^verbatim>\<open>/chat\<close> endpoint answers with a 500 whose detail is \<^verbatim>\<open>str(e)\<close>, the terminal
  loop prints the error, the collection is as before the turn (no document is written),
  and the model was invoked exactly once (the log of invocations grew by this one call).
\<close>

theorem model_failure_aborts_turn:
  assumes "key = Some k" and "k \<noteq> []"
    and "fst (get_chat_history (req_user_id request) (Some 5) up_read (chats_collection w))
           = Inr h"
    and "llm (messages_of (prompt_context h (req_message request))) = Inl e"
  shows "chat key llm now up_read up_write request w =
           (Inl (HTTPException 500 (Str e)),
            w\<lparr>invocations :=
                 invocations w @ [messages_of (prompt_context h (req_message request))]\<rparr>)
       \<and> chat_with_memory_turn llm now up_read up_write
             (req_user_id request) (req_message request) w =
           ([Thinking, Error e],
            w\<lparr>invocations :=
                 invocations w @ [messages_of (prompt_context h (req_message request))]\<rparr>)"
proof -
  have "snd (get_chat_history (req_user_id request) (Some 5) up_read (chats_collection w))
          = chats_collection w"
    by (rule get_chat_history_state)
  with assms(3)
  have g: "get_chat_history (req_user_id request) (Some 5) up_read (chats_collection w)
      = (Inr h, chats_collection w)"
    by (cases "get_chat_history (req_user_id request) (Some 5) up_read (chats_collection w)")
       simp
  show ?thesis
    using assms(1,2,4) g by (simp add: chat_def chat_with_memory_turn_def Let_def)
qed

theorem model_failure_aborts_turn_witness:
  "Some ''k'' = Some ''k'' \<and> ''k'' \<noteq> []
   \<and> fst (get_chat_history (req_user_id \<lparr>req_user_id = ''u'', req_message = ''q''\<rparr>) (Some 5) True
        (chats_collection \<lparr>chats_collection = Some [], invocations = []\<rparr>)) = Inr []
   \<and> (\<lambda>m. Inl (Exception ''quota'')) (messages_of (prompt_context [] ''q''))
       = (Inl (Exception ''quota'') :: exception + string)
   \<and> chat (Some ''k'') (\<lambda>m. Inl (Exception ''quota'')) 2000 True True
        \<lparr>req_user_id = ''u'', req_message = ''q''\<rparr>
        \<lparr>chats_collection = Some [], invocations = []\<rparr>
       = (Inl (HTTPException 500 (Str (Exception ''quota''))),
          \<lparr>chats_collection = Some [], invocations = [messages_of ''q'']\<rparr>)
   \<and> chat_with_memory_turn (\<lambda>m. Inl (Exception ''quota'')) 2000 True True ''u'' ''q''
        \<lparr>chats_collection = Some [], invocations = []\<rparr>
       = ([Thinking, Error (Exception ''quota'')],
          \<lparr>chats_collection = Some [], invocations = [messages_of ''q'']\<rparr>)"
proof -
  let ?w = "\<lparr>chats_collection = Some [], invocations = []\<rparr>"
  let ?r = "\<lparr>req_user_id = ''u'', req_message = ''q''\<rparr>"
  let ?llm = "\<lambda>m::message list. (Inl (Exception ''quota'') :: exception + string)"
  have k: "''k'' \<noteq> []" by simp
  have h: "fst (get_chat_history (req_user_id ?r) (Some 5) True (chats_collection ?w)) = Inr []"
    by (simp add: get_chat_history_def find_user_id_def sort_timestamp_desc_def
        limit_cursor_def list_cursor_def)
  have f: "?llm (messages_of (prompt_context [] (req_message ?r))) = Inl (Exception ''quota'')"
    by simp
  show ?thesis
    using k h
      model_failure_aborts_turn
        [of "Some ''k''" "''k''" ?r True ?w "[]" ?llm "Exception ''quota''" 2000 True,
         OF refl k h f]
    by (simp add: prompt_context_def)
qed

text \<open>
  C4. Prompt assembly, in the \<^verbatim>\<open>/chat\<close> endpoint (with an API key set) and in the terminal
  loop: with \<open>h\<close> the result of \<^verbatim>\<open>get_chat_history(user_id)\<close>, the message sent to the model
  after the system prompt is the raw message when \<open>h\<close> is empty, and otherwise
  \<open>Previous conversation:\<close>, newline, \<open>h\<close>, two newlines, \<open>Current question: \<close>, the message.
\<close>

theorem prompt_assembly:
  assumes "key = Some k" and "k \<noteq> []"
    and "fst (get_chat_history (req_user_id request) (Some 5) up_read (chats_collection w))
           = Inr h"
  shows "invocations (snd (chat key llm now up_read up_write request w)) =
           invocations w @
             [[SystemMessage system_prompt,
               HumanMessage
                 (if h = [] then req_message request
                  else ''Previous conversation:\<newline>'' @ h @
                       ''\<newline>\<newline>Current question: '' @ req_message request)]]
       \<and> invocations
            (snd (chat_with_memory_turn llm now up_read up_write
                    (req_user_id request) (req_message request) w)) =
           invocations w @
             [[SystemMessage system_prompt,
               HumanMessage
                 (if h = [] then req_message request
                  else ''Previous conversation:\<newline>'' @ h @
                       ''\<newline>\<newline>Current question: '' @ req_message request)]]"
proof -
  obtain cc where
    g: "get_chat_history (req_user_id request) (Some 5) up_read (chats_collection w) = (Inr h, cc)"
    using assms(3)
    by (cases "get_chat_history (req_user_id request) (Some 5) up_read (chats_collection w)")
       simp
  show ?thesis
    using assms(1,2) g
    by (simp add: chat_def chat_with_memory_turn_def Let_def messages_of_def prompt_context_def
        split: sum.splits prod.splits)
qed

theorem prompt_assembly_witness:
  "Some ''k'' = Some ''k'' \<and> ''k'' \<noteq> []
   \<and> fst (get_chat_history (req_user_id \<lparr>req_user_id = ''u'', req_message = ''q''\<rparr>) (Some 5) True
        (chats_collection
           \<lparr>chats_collection =
              Some [\<lparr>user_id = ''u'', user_message = ''a'', bot_response = ''b'', timestamp = 1000\<rparr>],
            invocations = []\<rparr>))
       = Inr ''User: a\<newline>Assistant: b''
   \<and> invocations (snd (chat (Some ''k'') (\<lambda>m. Inr ''r'') 2000 True True
        \<lparr>req_user_id = ''u'', req_message = ''q''\<rparr>
        \<lparr>chats_collection =
           Some [\<lparr>user_id = ''u'', user_message = ''a'', bot_response = ''b'', timestamp = 1000\<rparr>],
         invocations = []\<rparr>))
       = [[SystemMessage system_prompt,
           HumanMessage
             ''Previous conversation:\<newline>User: a\<newline>Assistant: b\<newline>\<newline>Current question: q'']]"
proof -
  let ?w = "\<lparr>chats_collection =
              Some [\<lparr>user_id = ''u'', user_message = ''a'', bot_response = ''b'', timestamp = 1000\<rparr>],
            invocations = []\<rparr>"
  let ?r = "\<lparr>req_user_id = ''u'', req_message = ''q''\<rparr>"
  have k: "''k'' \<noteq> []" by simp
  have h: "fst (get_chat_history (req_user_id ?r) (Some 5) True (chats_collection ?w))
             = Inr ''User: a\<newline>Assistant: b''"
    by (simp add: get_chat_history_def find_user_id_def sort_timestamp_desc_def
        limit_cursor_def list_cursor_def)
  show ?thesis
    using k h prompt_assembly [OF refl k h, of "\<lambda>m. Inr ''r''" 2000 True] by simp
qed

text \<open>
  C10. When \<^verbatim>\<open>POST /chat\<close> succeeds, the response carries the request's \<^verbatim>\<open>user_id\<close>, the
  request's \<^verbatim>\<open>message\<close> unchanged as \<^verbatim>\<open>user_message\<close>, and the status \<open>success\<close>.
\<close>

theorem chat_response_echo:
  "chat key llm now up_read up_write request w = (Inr response, w') \<Longrightarrow>
   resp_user_id response = req_user_id request
   \<and> resp_user_message response = req_message request
   \<and> resp_status response = ''success''"
  by (auto simp: chat_def Let_def split: if_splits sum.splits prod.splits)

theorem chat_response_echo_witness:
  "chat (Some ''k'') (\<lambda>m. Inr ''r'') 2000 True True \<lparr>req_user_id = ''u'', req_message = ''q''\<rparr>
        \<lparr>chats_collection = Some [], invocations = []\<rparr>
     = (Inr \<lparr>resp_user_id = ''u'', resp_user_message = ''q'', resp_bot_response = ''r'',
             resp_status = ''success''\<rparr>,
        \<lparr>chats_collection =
           Some [\<lparr>user_id = ''u'', user_message = ''q'', bot_response = ''r'', timestamp = 2000\<rparr>],
         invocations = [messages_of ''q'']\<rparr>)
   \<and> resp_user_id \<lparr>resp_user_id = ''u'', resp_user_message = ''q'', resp_bot_response = ''r'',
             resp_status = ''success''\<rparr> = req_user_id \<lparr>req_user_id = ''u'', req_message = ''q''\<rparr>
   \<and> resp_user_message \<lparr>resp_user_id = ''u'', resp_user_message = ''q'', resp_bot_response = ''r'',
             resp_status = ''success''\<rparr> = req_message \<lparr>req_user_id = ''u'', req_message = ''q''\<rparr>
   \<and> resp_status \<lparr>resp_user_id = ''u'', resp_user_message = ''q'', resp_bot_response = ''r'',
             resp_status = ''success''\<rparr> = ''success''"
proof -
  have c: "chat (Some ''k'') (\<lambda>m. Inr ''r'') 2000 True True \<lparr>req_user_id = ''u'', req_message = ''q''\<rparr>
        \<lparr>chats_collection = Some [], invocations = []\<rparr>
     = (Inr \<lparr>resp_user_id = ''u'', resp_user_message = ''q'', resp_bot_response = ''r'',
             resp_status = ''success''\<rparr>,
        \<lparr>chats_collection =
           Some [\<lparr>user_id = ''u'', user_message = ''q'', bot_response = ''r'', timestamp = 2000\<rparr>],
         invocations = [messages_of ''q'']\<rparr>)"
    by (simp add: chat_def get_chat_history_def find_user_id_def sort_timestamp_desc_def
        limit_cursor_def list_cursor_def prompt_context_def save_chat_def insert_one_def
        stored_datetime_def)
  show ?thesis using c chat_response_echo [OF c] by simp
qed

section \<open>The history endpoint\<close>

text \<open>
  C7. Whenever \<^verbatim>\<open>get_chat_history\<close> returns a string \<open>h\<close> for the request, \<^verbatim>\<open>POST /history\<close>
  answers with the request's user id, status \<open>success\<close>, and as history \<open>h\<close> itself when
  it is non-empty and the sentinel \<open>No chat history found\<close> when it is empty.
\<close>

theorem get_history_response:
  "fst (get_chat_history (hreq_user_id request) (hreq_limit request) up cc) = Inr h \<Longrightarrow>
   fst (get_history up request cc) =
     Inr \<lparr>hresp_user_id = hreq_user_id request,
          hresp_history = (if h = [] then ''No chat history found'' else h),
          hresp_status = ''success''\<rparr>"
  by (cases "get_chat_history (hreq_user_id request) (hreq_limit request) up cc")
     (simp add: get_history_def)

theorem get_history_response_witness:
  "fst (get_chat_history (hreq_user_id \<lparr>hreq_user_id = ''u'', hreq_limit = Some 5\<rparr>)
          (hreq_limit \<lparr>hreq_user_id = ''u'', hreq_limit = Some 5\<rparr>) True
          (Some [\<lparr>user_id = ''u'', user_message = ''a'', bot_response = ''b'', timestamp = 1000\<rparr>]))
     = Inr ''User: a\<newline>Assistant: b''
   \<and> fst (get_history True \<lparr>hreq_user_id = ''u'', hreq_limit = Some 5\<rparr>
          (Some [\<lparr>user_id = ''u'', user_message = ''a'', bot_response = ''b'', timestamp = 1000\<rparr>]))
     = Inr \<lparr>hresp_user_id = ''u'', hresp_history = ''User: a\<newline>Assistant: b'',
            hresp_status = ''success''\<rparr>
   \<and> fst (get_chat_history (hreq_user_id \<lparr>hreq_user_id = ''v'', hreq_limit = Some 5\<rparr>)
          (hreq_limit \<lparr>hreq_user_id = ''v'', hreq_limit = Some 5\<rparr>) True
          (Some [\<lparr>user_id = ''u'', user_message = ''a'', bot_response = ''b'', timestamp = 1000\<rparr>]))
     = Inr []
   \<and> fst (get_history True \<lparr>hreq_user_id = ''v'', hreq_limit = Some 5\<rparr>
          (Some [\<lparr>user_id = ''u'', user_message = ''a'', bot_response = ''b'', timestamp = 1000\<rparr>]))
     = Inr \<lparr>hresp_user_id = ''v'', hresp_history = ''No chat history found'',
            hresp_status = ''success''\<rparr>"
proof -
  let ?c = "Some [\<lparr>user_id = ''u'', user_message = ''a'', bot_response = ''b'', timestamp = 1000\<rparr>]"
  let ?r1 = "\<lparr>hreq_user_id = ''u'', hreq_limit = Some 5\<rparr>"
  let ?r2 = "\<lparr>hreq_user_id = ''v'', hreq_limit = Some 5\<rparr>"
  have h1: "fst (get_chat_history (hreq_user_id ?r1) (hreq_limit ?r1) True ?c)
              = Inr ''User: a\<newline>Assistant: b''"
    by (simp add: get_chat_history_def find_user_id_def sort_timestamp_desc_def
        limit_cursor_def list_cursor_def)
  have h2: "fst (get_chat_history (hreq_user_id ?r2) (hreq_limit ?r2) True ?c) = Inr []"
    by (simp add: get_chat_history_def find_user_id_def sort_timestamp_desc_def
        limit_cursor_def list_cursor_def)
  show ?thesis
    using h1 h2 get_history_response [OF h1] get_history_response [OF h2] by simp
qed

end
